theory Spec2Isabelle
  imports Complex_Main "HOL-Library.Product_Lexorder" "HOL-Library.Multiset"
begin

section \<open>Numbers\<close>

text \<open>
  The program computes with JavaScript numbers, IEEE 754 binary64, and stores them in
  SQLite REAL columns, which hold the same doubles. A number is a finite double, or one of
  the infinities, or NaN. A finite double is \<open>Finite m e\<close>, which stands for \<open>m * 2^e\<close>,
  with \<open>m\<close> odd, or \<open>m = 0\<close> and \<open>e = 0\<close>: every value has one form, and the equality
  of the datatype is the equality of the values. Every arithmetic operation gives the exact
  result rounded to the nearest double, a tie going to the even significand, as the
  standard prescribes. The two zeros are not told apart: the program never divides by a
  negative zero, and \<open>Math.max(0, -0)\<close> is \<open>0\<close>.
\<close>

datatype double = Finite int int | PosInfinity | NegInfinity | NaN

text \<open>The number of binary digits of a positive integer.\<close>

function bitlen :: "int \<Rightarrow> int" where
  "bitlen n = (if n \<le> 0 then 0 else 1 + bitlen (n div 2))"
  by pat_completeness auto
termination
  by (relation "measure nat") auto

text \<open>The power \<open>2^k\<close>, by repeated squaring (1 for a negative \<open>k\<close>).\<close>

function two_to :: "int \<Rightarrow> int" where
  "two_to k =
     (if k \<le> 0 then 1
      else (let h = two_to (k div 2) in if k mod 2 = 0 then h * h else 2 * h * h))"
  by pat_completeness auto
termination
  by (relation "measure nat") auto

text \<open>The one form of \<open>m * 2^e\<close>: the factors 2 of \<open>m\<close> go to the exponent.\<close>

function canon :: "int \<Rightarrow> int \<Rightarrow> double" where
  "canon m e =
     (if m = 0 then Finite 0 0
      else if m mod 2 = 0 then canon (m div 2) (e + 1) else Finite m e)"
  by pat_completeness auto
termination
  by (relation "measure (\<lambda>(m, e). nat \<bar>m\<bar>)") auto

declare bitlen.simps [simp del] two_to.simps [simp del] canon.simps [simp del]

text \<open>The integer nearest to \<open>n / d\<close>, for \<open>0 \<le> n\<close> and \<open>0 < d\<close>, a tie going to the even one.\<close>

definition round_even_div :: "int \<Rightarrow> int \<Rightarrow> int" where
  "round_even_div n d =
     (let f = n div d; r = n mod d
      in if 2 * r < d then f else if d < 2 * r then f + 1
         else if f mod 2 = 0 then f else f + 1)"

text \<open>The binary exponent of \<open>n / d\<close>, both positive: the \<open>k\<close> with \<open>2^k \<le> n / d < 2^(k+1)\<close>.\<close>

definition ilog2_frac :: "int \<Rightarrow> int \<Rightarrow> int" where
  "ilog2_frac n d =
     (let k = bitlen n - bitlen d
      in if (if 0 \<le> k then d * two_to k \<le> n else d \<le> n * two_to (- k)) then k else k - 1)"

text \<open>
  The double nearest to \<open>(n / d) * 2^e\<close>, for \<open>0 < d\<close>: 53 significant bits, the unit in
  the last place \<open>2^t\<close> never below \<open>2^-1074\<close>, and an infinity once the rounded magnitude
  reaches \<open>2^1024\<close> (a significand \<open>m\<close> at the exponent \<open>t\<close> is \<open>2^1024\<close> or more exactly
  when the digits of \<open>m\<close> and \<open>t\<close> add up to more than 1024).
\<close>

definition dbl_frac :: "int \<Rightarrow> int \<Rightarrow> int \<Rightarrow> double" where
  "dbl_frac n d e =
     (if n = 0 then Finite 0 0
      else
        (let a = \<bar>n\<bar>;
             t = max (ilog2_frac a d + e - 52) (- 1074);
             s = e - t;
             m = (if 0 \<le> s then round_even_div (a * two_to s) d
                  else round_even_div a (d * two_to (- s)))
         in if 1024 < t + bitlen m then (if 0 < n then PosInfinity else NegInfinity)
            else canon (if 0 < n then m else - m) t))"

text \<open>
  The double nearest to a rational. A decimal literal of the source and a number of a JSON
  body denote the double nearest to them: \<open>dbl (402 / 100)\<close> is the number \<open>4.02\<close> of
  the program.
\<close>

definition dbl :: "rat \<Rightarrow> double" where
  "dbl x = (let (a, b) = quotient_of x in dbl_frac a b 0)"

text \<open>The sign of a number that is not NaN, and the infinity of a sign.\<close>

fun sign_of :: "double \<Rightarrow> int" where
  "sign_of (Finite m e) = (if m < 0 then - 1 else if m = 0 then 0 else 1)"
| "sign_of PosInfinity = 1"
| "sign_of NegInfinity = - 1"
| "sign_of NaN = 0"

definition inf_of_sign :: "int \<Rightarrow> double" where
  "inf_of_sign s = (if s = 0 then NaN else if 0 < s then PosInfinity else NegInfinity)"

fun dneg :: "double \<Rightarrow> double" where
  "dneg (Finite m e) = Finite (- m) e"
| "dneg PosInfinity = NegInfinity"
| "dneg NegInfinity = PosInfinity"
| "dneg NaN = NaN"

fun dadd :: "double \<Rightarrow> double \<Rightarrow> double" where
  "dadd (Finite m1 e1) (Finite m2 e2) =
     (let e = min e1 e2 in dbl_frac (m1 * two_to (e1 - e) + m2 * two_to (e2 - e)) 1 e)"
| "dadd NaN y = NaN"
| "dadd x NaN = NaN"
| "dadd PosInfinity NegInfinity = NaN"
| "dadd NegInfinity PosInfinity = NaN"
| "dadd PosInfinity y = PosInfinity"
| "dadd NegInfinity y = NegInfinity"
| "dadd x PosInfinity = PosInfinity"
| "dadd x NegInfinity = NegInfinity"

fun dmul :: "double \<Rightarrow> double \<Rightarrow> double" where
  "dmul (Finite m1 e1) (Finite m2 e2) = dbl_frac (m1 * m2) 1 (e1 + e2)"
| "dmul NaN y = NaN"
| "dmul x NaN = NaN"
| "dmul x y = inf_of_sign (sign_of x * sign_of y)"

text \<open>A finite number divided by zero is an infinity of its sign, and \<open>0 / 0\<close> is NaN.\<close>

fun ddiv :: "double \<Rightarrow> double \<Rightarrow> double" where
  "ddiv (Finite m1 e1) (Finite m2 e2) =
     (if m2 = 0 then inf_of_sign (sign_of (Finite m1 e1))
      else dbl_frac (if 0 < m2 then m1 else - m1) \<bar>m2\<bar> (e1 - e2))"
| "ddiv NaN y = NaN"
| "ddiv x NaN = NaN"
| "ddiv (Finite m e) y = Finite 0 0"
| "ddiv x (Finite m e) = inf_of_sign (sign_of x * (if m < 0 then - 1 else 1))"
| "ddiv x y = NaN"

text \<open>The comparisons \<open><=\<close> and \<open><\<close>: false as soon as one side is NaN.\<close>

fun dle :: "double \<Rightarrow> double \<Rightarrow> bool" where
  "dle (Finite m1 e1) (Finite m2 e2) =
     (let e = min e1 e2 in m1 * two_to (e1 - e) \<le> m2 * two_to (e2 - e))"
| "dle NaN y = False"
| "dle x NaN = False"
| "dle NegInfinity y = True"
| "dle x PosInfinity = True"
| "dle x y = False"

fun dlt :: "double \<Rightarrow> double \<Rightarrow> bool" where
  "dlt (Finite m1 e1) (Finite m2 e2) =
     (let e = min e1 e2 in m1 * two_to (e1 - e) < m2 * two_to (e2 - e))"
| "dlt NaN y = False"
| "dlt x NaN = False"
| "dlt PosInfinity y = False"
| "dlt x NegInfinity = False"
| "dlt x y = True"

instantiation double :: "{zero, plus, minus, uminus, times, inverse, ord}"
begin

definition zero_double :: double where
  "zero_double = Finite 0 0"

definition plus_double :: "double \<Rightarrow> double \<Rightarrow> double" where
  "plus_double x y = dadd x y"

definition uminus_double :: "double \<Rightarrow> double" where
  "uminus_double x = dneg x"

definition minus_double :: "double \<Rightarrow> double \<Rightarrow> double" where
  "minus_double x y = dadd x (dneg y)"

definition times_double :: "double \<Rightarrow> double \<Rightarrow> double" where
  "times_double x y = dmul x y"

definition divide_double :: "double \<Rightarrow> double \<Rightarrow> double" where
  "divide_double x y = ddiv x y"

definition inverse_double :: "double \<Rightarrow> double" where
  "inverse_double x = ddiv (Finite 1 0) x"

definition less_eq_double :: "double \<Rightarrow> double \<Rightarrow> bool" where
  "less_eq_double x y = dle x y"

definition less_double :: "double \<Rightarrow> double \<Rightarrow> bool" where
  "less_double x y = dlt x y"

instance ..

end

text \<open>\<open>Number.EPSILON\<close>, which is \<open>2^-52\<close>.\<close>

definition EPSILON :: double where
  "EPSILON = Finite 1 (- 52)"

text \<open>
  \<open>Math.round\<close>, the nearest integer with a tie going up: the floor of \<open>x + 1/2\<close>, taken
  exactly; \<open>Math.ceil\<close>; and \<open>Math.max\<close>. For \<open>x = m / 2^k\<close> the floor of \<open>x + 1/2\<close> is
  the quotient of \<open>2 * m + 2^k\<close> by \<open>2^(k+1)\<close>. The integer next to a double is a double,
  so the first two do not round.
\<close>

fun Math_round :: "double \<Rightarrow> double" where
  "Math_round (Finite m e) =
     (if 0 \<le> e then Finite m e else canon ((2 * m + two_to (- e)) div two_to (1 - e)) 0)"
| "Math_round x = x"

fun Math_ceil :: "double \<Rightarrow> double" where
  "Math_ceil (Finite m e) =
     (if 0 \<le> e then Finite m e else canon (- ((- m) div two_to (- e))) 0)"
| "Math_ceil x = x"

definition Math_max :: "double \<Rightarrow> double \<Rightarrow> double" where
  "Math_max x y = (if x = NaN \<or> y = NaN then NaN else if x \<le> y then y else x)"

text \<open>\<open>const round2 = (n) => Math.round((n + Number.EPSILON) * 100) / 100\<close>\<close>

definition round2 :: "double \<Rightarrow> double" where
  "round2 n = Math_round ((n + EPSILON) * dbl 100) / dbl 100"

section \<open>The database\<close>

text \<open>
  One record per table, with the columns of the schema. A table is the list of its rows in
  the order of insertion. Timestamps (\<open>datetime('now')\<close>, to the second) are natural
  numbers. Table \<open>payments\<close> has no integer primary key, so SQLite gives every row a
  \<open>rowid\<close>: one more than the largest in the table.
\<close>

datatype loan_status = ACTIVE | PAID_OFF

record customer =
  cust_id :: string
  cust_name :: "string option"
  cust_created_at :: nat

record loan =
  loan_id :: string
  customer_id :: string
  principal_amount :: double
  interest_rate :: double
  loan_period_years :: double
  total_amount :: double
  monthly_emi :: double
  status :: loan_status
  created_at :: nat

record payment =
  payment_id :: string
  pay_loan_id :: string
  amount :: double
  payment_type :: string
  payment_date :: nat
  rowid :: nat

record db =
  customers :: "customer list"
  loans :: "loan list"
  payments :: "payment list"

definition empty_db :: db where
  "empty_db = \<lparr>customers = [], loans = [], payments = []\<rparr>"

fun max_rowid :: "payment list \<Rightarrow> nat" where
  "max_rowid [] = 0"
| "max_rowid (p # ps) = max (rowid p) (max_rowid ps)"

section \<open>Replies\<close>

record loan_created =
  lc_loan_id :: string
  lc_customer_id :: string
  lc_principal :: double
  lc_total_interest :: double
  lc_total_amount_payable :: double
  lc_monthly_emi :: double

record payment_recorded =
  pr_payment_id :: string
  pr_loan_id :: string
  pr_message :: string
  pr_remaining_balance :: double
  pr_emis_left :: double

record txn =
  transaction_id :: string
  txn_date :: nat
  txn_amount :: double
  txn_type :: string

record ledger =
  lg_loan_id :: string
  lg_customer_id :: string
  lg_principal :: double
  lg_total_amount :: double
  lg_monthly_emi :: double
  lg_amount_paid :: double
  lg_balance_amount :: double
  lg_emis_left :: double
  lg_status :: loan_status
  lg_transactions :: "txn list"

text \<open>
  A loan summary of the overview is kept as the object literal that the code builds: the
  list of its keys, each with its value.
\<close>

datatype jval = JNum double | JStr string | JStatus loan_status | JTime nat

type_synonym loan_summary = "(string \<times> jval) list"

record overview =
  ov_customer_id :: string
  ov_total_loans :: nat
  ov_loans :: "loan_summary list"

text \<open>
  A reply is the JSON body of a success, or an HTTP status with the error message of the
  handler, or no reply of the handler at all: when a statement of the database throws, the
  \<open>catch\<close> block passes the error's \<open>code\<close>, a string, to \<open>res.status\<close>, and its JSON
  is never sent (\<open>Unhandled\<close>). The error kinds of the specification are the replies
  \<open>Error 400 ''Invalid numeric values''\<close> (InvalidTerms),
  \<open>Error 404 ''Loan not found''\<close> (LoanNotFound),
  \<open>Error 400 ''amount must be > 0''\<close> (InvalidAmount),
  \<open>Error 400 type_msg\<close> (InvalidPaymentType),
  \<open>Error 409 ''Loan already paid off''\<close> (LoanAlreadySettled) and
  \<open>Error 404 ''No loans for this customer''\<close> (NoLoansForCustomer).
\<close>

datatype response =
    LoanCreated loan_created
  | PaymentRecorded payment_recorded
  | LedgerReply ledger
  | OverviewReply overview
  | HealthReply
  | Error nat string
  | Unhandled

section \<open>Helpers\<close>

text \<open>\<open>computeSI\<close>: simple interest \<open>I\<close> and amount \<open>A = P + I\<close>.\<close>

definition computeSI :: "double \<Rightarrow> double \<Rightarrow> double \<Rightarrow> double \<times> double" where
  "computeSI P N Rpct = (let I = P * N * (Rpct / dbl 100); A = P + I in (I, A))"

text \<open>\<open>getLoanOr404\<close>: the row of the loan, or the thrown \<open>{code: 404, msg}\<close>.\<close>

definition getLoanOr404 :: "db \<Rightarrow> string \<Rightarrow> (nat \<times> string) + loan" where
  "getLoanOr404 d loanId =
     (case find (\<lambda>l. loan_id l = loanId) (loans d) of
        None \<Rightarrow> Inl (404, ''Loan not found'')
      | Some l \<Rightarrow> Inr l)"

text \<open>The rows of \<open>payments WHERE loan_id = ?\<close>, in the order of the table.\<close>

definition payments_of :: "db \<Rightarrow> string \<Rightarrow> payment list" where
  "payments_of d loanId = filter (\<lambda>p. pay_loan_id p = loanId) (payments d)"

text \<open>
  \<open>SELECT COALESCE(SUM(amount),0) FROM payments WHERE loan_id = ?\<close>: the column is
  REAL, and the database adds the amounts as doubles, row after row in the order of the
  rowids, starting from 0. Releases of SQLite from 3.44 on carry a correction term along
  this sum; for one or two rows the result is the same double, and it is the same for
  every run that a theorem below evaluates.
\<close>

definition sum_paid :: "db \<Rightarrow> string \<Rightarrow> double" where
  "sum_paid d loanId = foldl (+) 0 (map amount (payments_of d loanId))"

record totals =
  t_loan :: loan
  t_paid :: double
  t_balance :: double
  t_emisLeft :: double

definition totalsForLoan :: "db \<Rightarrow> string \<Rightarrow> (nat \<times> string) + totals" where
  "totalsForLoan d loanId =
     (let paid = sum_paid d loanId in
      case getLoanOr404 d loanId of
        Inl e \<Rightarrow> Inl e
      | Inr lrow \<Rightarrow>
          (let balance = Math_max 0 (round2 (total_amount lrow - paid));
               emisLeft = (if balance \<le> 0 then 0 else Math_ceil (balance / monthly_emi lrow))
           in Inr \<lparr>t_loan = lrow, t_paid = round2 paid, t_balance = balance,
                    t_emisLeft = emisLeft\<rparr>))"

definition upsertCustomer :: "db \<Rightarrow> string \<Rightarrow> nat \<Rightarrow> db" where
  "upsertCustomer d cid now =
     (case find (\<lambda>c. cust_id c = cid) (customers d) of
        None \<Rightarrow>
          d\<lparr>customers := customers d @
              [\<lparr>cust_id = cid, cust_name = None, cust_created_at = now\<rparr>]\<rparr>
      | Some row \<Rightarrow> d)"

section \<open>The API\<close>

text \<open>
  The request bodies, a missing or \<open>null\<close> field being \<open>None\<close>. The identifier that
  \<open>uuid()\<close> draws and the clock of the database are arguments of the handlers. Node runs
  one handler at a time and the database calls are synchronous, so a handler is one step.
\<close>

record loan_body =
  b_customer_id :: "string option"
  b_loan_amount :: "double option"
  b_loan_period_years :: "double option"
  b_interest_rate_yearly :: "double option"

record payment_body =
  b_amount :: "double option"
  b_payment_type :: "string option"

definition required_msg :: string where
  "required_msg = ''customer_id, loan_amount, loan_period_years, interest_rate_yearly are required''"

text \<open>
  \<open>INSERT INTO loans (...) VALUES (?, ?, ?, ?, ?, ?, ?, 'ACTIVE')\<close>, with the default
  \<open>created_at\<close>. The statement throws (\<open>None\<close>) when the identifier is already a primary
  key, or when a number is NaN: SQLite binds NaN as NULL, and the columns are NOT NULL.
\<close>

definition insert_loan ::
  "db \<Rightarrow> string \<Rightarrow> string \<Rightarrow> double \<Rightarrow> double \<Rightarrow> double \<Rightarrow> double \<Rightarrow> double \<Rightarrow> nat \<Rightarrow> db option" where
  "insert_loan d lid cid P R N A2 emi now =
     (if lid \<in> set (map loan_id (loans d)) \<or> NaN \<in> set [P, R, N, A2, emi] then None
      else Some (d\<lparr>loans := loans d @
         [\<lparr>loan_id = lid, customer_id = cid, principal_amount = P, interest_rate = R,
           loan_period_years = N, total_amount = A2, monthly_emi = emi, status = ACTIVE,
           created_at = now\<rparr>]\<rparr>))"

definition post_loans :: "db \<Rightarrow> loan_body \<Rightarrow> string \<Rightarrow> nat \<Rightarrow> db \<times> response" where
  "post_loans d body uid now =
     (case (b_customer_id body, b_loan_amount body, b_loan_period_years body,
            b_interest_rate_yearly body) of
        (Some cid, Some loan_amount, Some years, Some rate) \<Rightarrow>
          if cid = [] then (d, Error 400 required_msg)
          else if loan_amount \<le> 0 \<or> years \<le> 0 \<or> rate < 0
          then (d, Error 400 ''Invalid numeric values'')
          else
            (let d1 = upsertCustomer d cid now;
                 P = loan_amount; N = years; R = rate;
                 (I, A) = computeSI P N R;
                 totalMonths = N * dbl 12;
                 emi = round2 (A / totalMonths)
             in case insert_loan d1 uid cid P R N (round2 A) emi now of
                  None \<Rightarrow> (d1, Unhandled)
                | Some d2 \<Rightarrow>
                    (d2, LoanCreated
                       \<lparr>lc_loan_id = uid, lc_customer_id = cid, lc_principal = round2 P,
                        lc_total_interest = round2 I, lc_total_amount_payable = round2 A,
                        lc_monthly_emi = emi\<rparr>))
      | _ \<Rightarrow> (d, Error 400 required_msg))"

definition set_paid_off :: "string \<Rightarrow> loan \<Rightarrow> loan" where
  "set_paid_off loanId l = (if loan_id l = loanId then l\<lparr>status := PAID_OFF\<rparr> else l)"

definition quoted :: "string \<Rightarrow> string" where
  "quoted s = CHR 0x27 # s @ [CHR 0x27]"

definition type_msg :: string where
  "type_msg = ''payment_type must be '' @ quoted ''EMI'' @ '' or '' @ quoted ''LUMP_SUM''"

text \<open>\<open>UPDATE loans SET status='PAID_OFF' WHERE loan_id = ?\<close>\<close>

definition update_paid_off :: "db \<Rightarrow> string \<Rightarrow> db" where
  "update_paid_off d loanId = d\<lparr>loans := map (set_paid_off loanId) (loans d)\<rparr>"

text \<open>
  \<open>INSERT INTO payments (payment_id, loan_id, amount, payment_type) VALUES (?, ?, ?, ?)\<close>,
  with the default \<open>payment_date\<close> and the next \<open>rowid\<close>. It throws on a primary key
  that exists and on an amount that is NaN. The handler has checked the type and the loan
  before, so the CHECK and the foreign key of the table hold.
\<close>

definition insert_payment ::
  "db \<Rightarrow> string \<Rightarrow> string \<Rightarrow> double \<Rightarrow> string \<Rightarrow> nat \<Rightarrow> db option" where
  "insert_payment d pid loanId amt ty now =
     (if pid \<in> set (map payment_id (payments d)) \<or> amt = NaN then None
      else Some (d\<lparr>payments := payments d @
         [\<lparr>payment_id = pid, pay_loan_id = loanId, amount = amt, payment_type = ty,
           payment_date = now, rowid = Suc (max_rowid (payments d))\<rparr>]\<rparr>))"

text \<open>
  The test \<open>!amount || amount <= 0\<close>: a number is falsy when it is 0 or NaN.
\<close>

definition post_payments :: "db \<Rightarrow> string \<Rightarrow> payment_body \<Rightarrow> string \<Rightarrow> nat \<Rightarrow> db \<times> response" where
  "post_payments d loanId body uid now =
     (case getLoanOr404 d loanId of
        Inl (code, msg) \<Rightarrow> (d, Error code msg)
      | Inr lrow \<Rightarrow>
          (case b_amount body of
             None \<Rightarrow> (d, Error 400 ''amount must be > 0'')
           | Some amt \<Rightarrow>
               if (amt = 0 \<or> amt = NaN) \<or> amt \<le> 0 then (d, Error 400 ''amount must be > 0'')
               else
                 (case b_payment_type body of
                    None \<Rightarrow> (d, Error 400 type_msg)
                  | Some ty \<Rightarrow>
                      if ty = [] \<or> ty \<notin> set [''EMI'', ''LUMP_SUM''] then (d, Error 400 type_msg)
                      else if status lrow = PAID_OFF then (d, Error 409 ''Loan already paid off'')
                      else
                        (case insert_payment d uid loanId (round2 amt) ty now of
                           None \<Rightarrow> (d, Unhandled)
                         | Some d1 \<Rightarrow>
                             (case totalsForLoan d1 loanId of
                                Inl (code, msg) \<Rightarrow> (d1, Error code msg)
                              | Inr t \<Rightarrow>
                                  (let d2 = (if t_balance t \<le> 0 \<and> status lrow \<noteq> PAID_OFF
                                             then update_paid_off d1 loanId else d1)
                                   in (d2, PaymentRecorded
                                         \<lparr>pr_payment_id = uid, pr_loan_id = loanId,
                                          pr_message = ''Payment recorded successfully'',
                                          pr_remaining_balance = t_balance t,
                                          pr_emis_left = t_emisLeft t\<rparr>)))))))"

text \<open>
  The rows of the ledger query:
  \<open>WHERE loan_id = ? ORDER BY datetime(payment_date) ASC, rowid ASC\<close>.
\<close>

definition ledger_rows :: "db \<Rightarrow> string \<Rightarrow> payment list" where
  "ledger_rows d loanId =
     sort_key (\<lambda>p. (payment_date p, rowid p)) (payments_of d loanId)"

definition txn_of :: "payment \<Rightarrow> txn" where
  "txn_of p = \<lparr>transaction_id = payment_id p, txn_date = payment_date p,
               txn_amount = amount p, txn_type = payment_type p\<rparr>"

definition get_ledger :: "db \<Rightarrow> string \<Rightarrow> response" where
  "get_ledger d loanId =
     (case totalsForLoan d loanId of
        Inl (code, msg) \<Rightarrow> Error code msg
      | Inr t \<Rightarrow>
          (let lrow = t_loan t; txns = map txn_of (ledger_rows d loanId)
           in LedgerReply
                \<lparr>lg_loan_id = loan_id lrow, lg_customer_id = customer_id lrow,
                 lg_principal = round2 (principal_amount lrow),
                 lg_total_amount = round2 (total_amount lrow),
                 lg_monthly_emi = round2 (monthly_emi lrow),
                 lg_amount_paid = t_paid t, lg_balance_amount = t_balance t,
                 lg_emis_left = t_emisLeft t, lg_status = status lrow,
                 lg_transactions = txns\<rparr>))"

text \<open>
  The rows of the overview query:
  \<open>SELECT * FROM loans WHERE customer_id = ? ORDER BY datetime(created_at) DESC\<close>.
  SQL leaves the order of rows with equal keys open; the model keeps them in the order of
  the table, and no theorem below depends on that choice.
\<close>

definition overview_rows :: "db \<Rightarrow> string \<Rightarrow> loan list" where
  "overview_rows d customerId =
     rev (sort_key created_at (rev (filter (\<lambda>l. customer_id l = customerId) (loans d))))"

text \<open>The object that \<open>loans.map\<close> builds for one loan row.\<close>

definition summary_of :: "db \<Rightarrow> loan \<Rightarrow> loan_summary" where
  "summary_of d lrow =
     (let paid = sum_paid d (loan_id lrow);
          balance = Math_max 0 (round2 (total_amount lrow - paid));
          emisLeft = (if balance \<le> 0 then 0 else Math_ceil (balance / monthly_emi lrow));
          totalInterest = round2 (total_amount lrow - principal_amount lrow)
      in [(''loan_id'', JStr (loan_id lrow)),
          (''principal'', JNum (round2 (principal_amount lrow))),
          (''total_amount'', JNum (round2 (total_amount lrow))),
          (''total_interest'', JNum totalInterest),
          (''emi_amount'', JNum (round2 (monthly_emi lrow))),
          (''amount_paid'', JNum (round2 paid)),
          (''emis_left'', JNum emisLeft),
          (''status'', JStatus (status lrow)),
          (''created_at'', JTime (created_at lrow))])"

definition get_overview :: "db \<Rightarrow> string \<Rightarrow> response" where
  "get_overview d customerId =
     (let lrows = overview_rows d customerId
      in if length lrows = 0 then Error 404 ''No loans for this customer''
         else
           (let out = map (summary_of d) lrows
            in OverviewReply
                 \<lparr>ov_customer_id = customerId, ov_total_loans = length out, ov_loans = out\<rparr>))"

section \<open>Runs of the service\<close>

datatype request =
    PostLoan loan_body string nat
  | PostPayment string payment_body string nat
  | GetLedger string
  | GetOverview string
  | GetHealth

fun handle :: "db \<Rightarrow> request \<Rightarrow> db \<times> response" where
  "handle d (PostLoan body uid now) = post_loans d body uid now"
| "handle d (PostPayment loanId body uid now) = post_payments d loanId body uid now"
| "handle d (GetLedger loanId) = (d, get_ledger d loanId)"
| "handle d (GetOverview customerId) = (d, get_overview d customerId)"
| "handle d GetHealth = (d, HealthReply)"

text \<open>The database after a list of requests, starting from the empty tables.\<close>

fun run :: "db \<Rightarrow> request list \<Rightarrow> db" where
  "run d [] = d"
| "run d (r # rs) = run (fst (handle d r)) rs"


section \<open>Properties of the stored data\<close>


section \<open>Worked runs\<close>

text \<open>
  The scenario of the specification: a loan of 100000 at 10 percent for one year, one
  installment of 9166.67, then a lump sum of 100833.33.
\<close>

definition ex_loan_body :: loan_body where
  "ex_loan_body = \<lparr>b_customer_id = Some ''C1'', b_loan_amount = Some (dbl 100000),
       b_loan_period_years = Some (dbl 1), b_interest_rate_yearly = Some (dbl 10)\<rparr>"

definition ex_emi_body :: payment_body where
  "ex_emi_body = \<lparr>b_amount = Some (dbl (916667 / 100)), b_payment_type = Some ''EMI''\<rparr>"

definition ex_lump_body :: payment_body where
  "ex_lump_body = \<lparr>b_amount = Some (dbl (10083333 / 100)), b_payment_type = Some ''LUMP_SUM''\<rparr>"

definition ex_loan :: request where
  "ex_loan = PostLoan ex_loan_body ''L1'' 0"

definition ex_emi :: request where
  "ex_emi = PostPayment ''L1'' ex_emi_body ''P1'' 1"

definition ex_lump :: request where
  "ex_lump = PostPayment ''L1'' ex_lump_body ''P2'' 1"

definition ex_row :: "loan_status \<Rightarrow> loan" where
  "ex_row s = \<lparr>loan_id = ''L1'', customer_id = ''C1'', principal_amount = dbl 100000,
       interest_rate = dbl 10, loan_period_years = dbl 1, total_amount = dbl 110000,
       monthly_emi = dbl (916667 / 100), status = s, created_at = 0\<rparr>"

text \<open>A second, later loan of the same customer: 5000 at 5 percent for two years.\<close>

definition ex_loan2_body :: loan_body where
  "ex_loan2_body = \<lparr>b_customer_id = Some ''C1'', b_loan_amount = Some (dbl 5000),
       b_loan_period_years = Some (dbl 2), b_interest_rate_yearly = Some (dbl 5)\<rparr>"

definition ex_loan2 :: request where
  "ex_loan2 = PostLoan ex_loan2_body ''L4'' 5"







text \<open>
  Loans on which the arithmetic of doubles shows: 3 at 15.5 percent for three years, with
  the exact interest 1.395 and the exact total 4.395; 46 at 5 percent for one year, with
  the exact total 48.30 and the exact installment 4.025; and 101.40 for one year at no
  interest, twelve installments of 8.45.
\<close>

definition tie_loan_body :: loan_body where
  "tie_loan_body = \<lparr>b_customer_id = Some ''C1'', b_loan_amount = Some (dbl 3),
       b_loan_period_years = Some (dbl 3), b_interest_rate_yearly = Some (dbl (155 / 10))\<rparr>"

definition odd_loan_body :: loan_body where
  "odd_loan_body = \<lparr>b_customer_id = Some ''C1'', b_loan_amount = Some (dbl 46),
       b_loan_period_years = Some (dbl 1), b_interest_rate_yearly = Some (dbl 5)\<rparr>"

definition plan_loan :: request where
  "plan_loan = PostLoan \<lparr>b_customer_id = Some ''C1'', b_loan_amount = Some (dbl (1014 / 10)),
       b_loan_period_years = Some (dbl 1), b_interest_rate_yearly = Some (dbl 0)\<rparr> ''L6'' 0"

text \<open>A loan of one cent for one year at no interest, and a payment of a tenth of a cent.\<close>

definition cent_loan :: request where
  "cent_loan = PostLoan \<lparr>b_customer_id = Some ''C1'', b_loan_amount = Some (dbl (1 / 100)),
       b_loan_period_years = Some (dbl 1), b_interest_rate_yearly = Some (dbl 0)\<rparr> ''L2'' 0"

definition subcent_body :: payment_body where
  "subcent_body = \<lparr>b_amount = Some (dbl (1 / 1000)), b_payment_type = Some ''EMI''\<rparr>"

text \<open>A loan of a tenth of a cent: its total rounds to 0.\<close>

definition tiny_loan :: request where
  "tiny_loan = PostLoan \<lparr>b_customer_id = Some ''C1'', b_loan_amount = Some (dbl (1 / 1000)),
       b_loan_period_years = Some (dbl 1), b_interest_rate_yearly = Some (dbl 0)\<rparr> ''L3'' 0"

text \<open>
  A loan of \<open>10\<^sup>1\<^sup>6\<close> for one year at no interest and four payments on it, of 0.07, 0.01,
  2.92 and \<open>2\<^sup>5\<^sup>3 = 9007199254740992\<close>; their exact sum is 9007199254740995.
\<close>

definition huge_loan :: request where
  "huge_loan = PostLoan \<lparr>b_customer_id = Some ''C1'',
       b_loan_amount = Some (dbl 10000000000000000),
       b_loan_period_years = Some (dbl 1), b_interest_rate_yearly = Some (dbl 0)\<rparr> ''L7'' 0"

definition huge_row :: loan where
  "huge_row = \<lparr>loan_id = ''L7'', customer_id = ''C1'',
       principal_amount = dbl 10000000000000000, interest_rate = dbl 0,
       loan_period_years = dbl 1, total_amount = dbl 10000000000000000,
       monthly_emi = dbl (1666666666666667 / 2), status = ACTIVE, created_at = 0\<rparr>"

definition pay_a :: request where
  "pay_a = PostPayment ''L7''
     \<lparr>b_amount = Some (dbl (7 / 100)), b_payment_type = Some ''EMI''\<rparr> ''Pa'' 1"

definition pay_b :: request where
  "pay_b = PostPayment ''L7''
     \<lparr>b_amount = Some (dbl (1 / 100)), b_payment_type = Some ''EMI''\<rparr> ''Pb'' 1"

definition pay_c :: request where
  "pay_c = PostPayment ''L7''
     \<lparr>b_amount = Some (dbl (292 / 100)), b_payment_type = Some ''EMI''\<rparr> ''Pc'' 1"

definition pay_d :: request where
  "pay_d = PostPayment ''L7''
     \<lparr>b_amount = Some (dbl 9007199254740992), b_payment_type = Some ''LUMP_SUM''\<rparr> ''Pd'' 1"

section \<open>The arithmetic at work\<close>

text \<open>
  Some values of the arithmetic, as every implementation of binary64 gives them:
  \<open>0.1 + 0.2\<close> is \<open>0.30000000000000004\<close>; the interest of 0.1 over three years at 10
  percent is \<open>0.030000000000000006\<close>; \<open>round2 2.135\<close> is 2.13 and \<open>round2 1.005\<close> is
  1.01; \<open>101.4 / 8.45\<close> lies above 12; a product beyond the largest double is
  \<open>Infinity\<close>, the difference of two infinities is NaN, and no comparison holds of NaN.
\<close>

lemma double_sum_example: "dbl (1 / 10) + dbl (2 / 10) = dbl (30000000000000004 / 100000000000000000)"
  by code_simp

lemma computeSI_example:
  "computeSI (dbl (1 / 10)) (dbl 3) (dbl 10) =
     (dbl (30000000000000006 / 1000000000000000000), dbl (13 / 100))"
  by code_simp

lemma round2_examples:
  "round2 (dbl (2135 / 1000)) = dbl (213 / 100)"
  "round2 (dbl (1005 / 1000)) = dbl (101 / 100)"
  "round2 (dbl (4395 / 1000)) = dbl (439 / 100)"
  "round2 (dbl (- 3 / 1000)) = 0"
  by code_simp+

lemma quotient_examples:
  "dbl (1014 / 10) / dbl (845 / 100) = dbl (12000000000000002 / 1000000000000000)"
  "Math_ceil (dbl (1014 / 10) / dbl (845 / 100)) = dbl 13"
  "dbl (483 / 10) / dbl 12 = dbl (40249999999999995 / 10000000000000000)"
  "dbl (1 / 100) / 0 = PosInfinity"
  "(0 :: double) / 0 = NaN"
  by code_simp+

lemma overflow_examples:
  "dbl (10 ^ 308) * dbl 10 = PosInfinity"
  "round2 (dbl (10 ^ 308)) = PosInfinity"
  "PosInfinity - PosInfinity = NaN"
  "Math_max 0 (round2 (PosInfinity - PosInfinity)) = NaN"
  "\<not> NaN \<le> (0 :: double)"
  "\<not> (0 :: double) \<le> NaN"
  by code_simp+

section \<open>Order of the numbers\<close>

lemma two_to_pos: "0 < two_to k"
proof (induction k rule: two_to.induct)
  case (1 k)
  show ?case
  proof (cases "k \<le> 0")
    case True
    then show ?thesis by (simp add: two_to.simps [of k])
  next
    case False
    with "1" have "0 < two_to (k div 2)" by simp
    with False show ?thesis by (simp add: two_to.simps [of k] Let_def)
  qed
qed

text \<open>A number above 0 passes the test \<open>!amount || amount <= 0\<close>.\<close>

lemma positive_double:
  fixes x :: double
  assumes "0 < x"
  shows "x \<noteq> 0" and "x \<noteq> NaN" and "\<not> x \<le> 0"
proof -
  have "x \<noteq> 0 \<and> x \<noteq> NaN \<and> \<not> x \<le> 0"
  proof (cases x)
    case (Finite m e)
    with assms have "0 * two_to (0 - min 0 e) < m * two_to (e - min 0 e)"
      by (simp add: less_double_def zero_double_def Let_def)
    then have m: "0 < m * two_to (e - min 0 e)" by simp
    then have "0 < m" using two_to_pos [of "e - min 0 e"] by (simp add: zero_less_mult_iff)
    then have "m \<noteq> 0" by simp
    moreover have "\<not> m * two_to (e - min e 0) \<le> 0"
      using m by (simp add: min.commute)
    ultimately show ?thesis
      using Finite by (simp add: less_eq_double_def zero_double_def Let_def)
  next
    case PosInfinity
    then show ?thesis by (simp add: less_eq_double_def zero_double_def)
  next
    case NegInfinity
    with assms show ?thesis by (simp add: less_double_def zero_double_def)
  next
    case NaN
    with assms show ?thesis by (simp add: less_double_def zero_double_def)
  qed
  then show "x \<noteq> 0" and "x \<noteq> NaN" and "\<not> x \<le> 0" by simp_all
qed

section \<open>The handlers, case by case\<close>

lemma loans_upsertCustomer: "loans (upsertCustomer d cid now) = loans d"
  by (simp add: upsertCustomer_def split: option.splits)

lemma payments_upsertCustomer: "payments (upsertCustomer d cid now) = payments d"
  by (simp add: upsertCustomer_def split: option.splits)

lemma insert_loan_Some:
  assumes "insert_loan d lid cid P R N A2 emi now = Some d'"
  shows "loans d' = loans d @
      [\<lparr>loan_id = lid, customer_id = cid, principal_amount = P, interest_rate = R,
        loan_period_years = N, total_amount = A2, monthly_emi = emi, status = ACTIVE,
        created_at = now\<rparr>]"
    and "payments d' = payments d" and "customers d' = customers d"
  using assms by (auto simp: insert_loan_def split: if_splits)

lemma insert_payment_Some:
  assumes "insert_payment d pid loanId amt ty now = Some d'"
  shows "payments d' = payments d @
      [\<lparr>payment_id = pid, pay_loan_id = loanId, amount = amt, payment_type = ty,
        payment_date = now, rowid = Suc (max_rowid (payments d))\<rparr>]"
    and "loans d' = loans d" and "customers d' = customers d"
  using assms by (auto simp: insert_payment_def split: if_splits)

lemma getLoanOr404_cases:
  obtains "getLoanOr404 d loanId = Inl (404, ''Loan not found'')"
  | lrow where "getLoanOr404 d loanId = Inr lrow" "lrow \<in> set (loans d)" "loan_id lrow = loanId"
  unfolding getLoanOr404_def
  by (cases "find (\<lambda>l. loan_id l = loanId) (loans d)") (auto simp: find_Some_iff)

lemma totalsForLoan_Inr:
  "getLoanOr404 d loanId = Inr lrow \<Longrightarrow>
   \<exists>t. totalsForLoan d loanId = Inr t \<and> t_loan t = lrow"
  by (simp add: totalsForLoan_def Let_def)

text \<open>The payment handler, case by case: a refusal, a throwing insertion, or a payment.\<close>

lemma post_payments_cases:
  obtains (reject) c m where "post_payments d loanId body uid now = (d, Error c m)"
  | (throw) "post_payments d loanId body uid now = (d, Unhandled)"
  | (accept) lrow amt ty d1 t where "getLoanOr404 d loanId = Inr lrow" "status lrow = ACTIVE"
      "b_amount body = Some amt" "0 < amt" "b_payment_type body = Some ty"
      "ty = ''EMI'' \<or> ty = ''LUMP_SUM''"
      "insert_payment d uid loanId (round2 amt) ty now = Some d1"
      "totalsForLoan d1 loanId = Inr t"
      "post_payments d loanId body uid now =
         (if t_balance t \<le> 0 then update_paid_off d1 loanId else d1,
          PaymentRecorded \<lparr>pr_payment_id = uid, pr_loan_id = loanId,
             pr_message = ''Payment recorded successfully'',
             pr_remaining_balance = t_balance t, pr_emis_left = t_emisLeft t\<rparr>)"
proof (cases rule: getLoanOr404_cases [of d loanId])
  case 1
  then show ?thesis using reject by (simp add: post_payments_def)
next
  case (2 lrow)
  note g = 2(1)
  show ?thesis
  proof (cases "b_amount body")
    case None
    then show ?thesis using reject g by (simp add: post_payments_def)
  next
    case amt: (Some amt)
    show ?thesis
    proof (cases "(amt = 0 \<or> amt = NaN) \<or> amt \<le> 0")
      case True
      then have "post_payments d loanId body uid now = (d, Error 400 ''amount must be > 0'')"
        using g amt by (simp add: post_payments_def)
      then show ?thesis by (rule reject)
    next
      case ok: False
      have pos: "0 < amt"
      proof (cases amt)
        case (Finite m e)
        with ok have "m \<noteq> 0 \<or> e \<noteq> 0" and "\<not> m * two_to (e - min e 0) \<le> 0"
          by (simp_all add: zero_double_def less_eq_double_def Let_def)
        then have "0 < m * two_to (e - min 0 e)" by (simp add: min.commute)
        then show ?thesis using Finite by (simp add: zero_double_def less_double_def Let_def)
      next
        case PosInfinity
        then show ?thesis by (simp add: zero_double_def less_double_def)
      next
        case NegInfinity
        with ok show ?thesis by (simp add: zero_double_def less_eq_double_def)
      next
        case NaN
        with ok show ?thesis by simp
      qed
      show ?thesis
      proof (cases "b_payment_type body")
        case None
        then show ?thesis using reject g amt ok by (simp add: post_payments_def)
      next
        case ty: (Some ty)
        show ?thesis
        proof (cases "ty = [] \<or> ty \<notin> set [''EMI'', ''LUMP_SUM'']")
          case True
          then have "post_payments d loanId body uid now = (d, Error 400 type_msg)"
            using g amt ok ty by (simp add: post_payments_def)
          then show ?thesis by (rule reject)
        next
          case tmem: False
          then have tyok: "ty = ''EMI'' \<or> ty = ''LUMP_SUM''" by auto
          show ?thesis
          proof (cases "status lrow")
            case PAID_OFF
            then have "post_payments d loanId body uid now = (d, Error 409 ''Loan already paid off'')"
              using g amt ok ty tmem by (simp add: post_payments_def)
            then show ?thesis by (rule reject)
          next
            case ACTIVE
            show ?thesis
            proof (cases "insert_payment d uid loanId (round2 amt) ty now")
              case None
              have "post_payments d loanId body uid now = (d, Unhandled)"
                using ok tmem by (simp add: post_payments_def g amt ty ACTIVE None)
              then show ?thesis by (rule throw)
            next
              case (Some d1)
              have "getLoanOr404 d1 loanId = Inr lrow"
                using g insert_payment_Some(2) [OF Some] by (simp add: getLoanOr404_def)
              then obtain t where t: "totalsForLoan d1 loanId = Inr t"
                using totalsForLoan_Inr by blast
              have "post_payments d loanId body uid now =
                 (if t_balance t \<le> 0 then update_paid_off d1 loanId else d1,
                  PaymentRecorded \<lparr>pr_payment_id = uid, pr_loan_id = loanId,
                     pr_message = ''Payment recorded successfully'',
                     pr_remaining_balance = t_balance t, pr_emis_left = t_emisLeft t\<rparr>)"
                using ok tmem by (simp add: post_payments_def g amt ty ACTIVE Some t Let_def)
              then show ?thesis by (rule accept [OF g ACTIVE amt pos ty tyok Some t])
            qed
          qed
        qed
      qed
    qed
  qed
qed

text \<open>The loan handler, case by case.\<close>

lemma post_loans_cases:
  obtains (reject) c m where "post_loans d body uid now = (d, Error c m)"
  | (throw) cid where "post_loans d body uid now = (upsertCustomer d cid now, Unhandled)"
  | (create) cid P N R d2 l where "b_customer_id body = Some cid" "cid \<noteq> []"
      "b_loan_amount body = Some P" "b_loan_period_years body = Some N"
      "b_interest_rate_yearly body = Some R"
      "loans d2 = loans d @ [l]" "payments d2 = payments d" "status l = ACTIVE"
      "loan_id l = uid"
      "post_loans d body uid now =
         (d2, LoanCreated
            \<lparr>lc_loan_id = uid, lc_customer_id = cid, lc_principal = round2 P,
             lc_total_interest = round2 (fst (computeSI P N R)),
             lc_total_amount_payable = round2 (snd (computeSI P N R)),
             lc_monthly_emi = round2 (snd (computeSI P N R) / (N * dbl 12))\<rparr>)"
proof (cases "b_customer_id body")
  case None
  then show ?thesis using reject by (simp add: post_loans_def)
next
  case cid: (Some cid)
  show ?thesis
  proof (cases "b_loan_amount body")
    case None
    then show ?thesis using reject cid by (simp add: post_loans_def)
  next
    case P: (Some P)
    show ?thesis
    proof (cases "b_loan_period_years body")
      case None
      then show ?thesis using reject cid P by (simp add: post_loans_def)
    next
      case N: (Some N)
      show ?thesis
      proof (cases "b_interest_rate_yearly body")
        case None
        then show ?thesis using reject cid P N by (simp add: post_loans_def)
      next
        case R: (Some R)
        show ?thesis
        proof (cases "cid = [] \<or> P \<le> 0 \<or> N \<le> 0 \<or> R < 0")
          case True
          then have "\<exists>c m. post_loans d body uid now = (d, Error c m)"
            using cid P N R by (auto simp: post_loans_def)
          then show ?thesis using reject by blast
        next
          case ok: False
          let ?d1 = "upsertCustomer d cid now"
          let ?A = "snd (computeSI P N R)"
          let ?emi = "round2 (?A / (N * dbl 12))"
          show ?thesis
          proof (cases "insert_loan ?d1 uid cid P R N (round2 ?A) ?emi now")
            case None
            then have "post_loans d body uid now = (?d1, Unhandled)"
              using cid P N R ok by (simp add: post_loans_def Let_def split_beta)
            then show ?thesis by (rule throw)
          next
            case (Some d2)
            have "post_loans d body uid now =
               (d2, LoanCreated
                  \<lparr>lc_loan_id = uid, lc_customer_id = cid, lc_principal = round2 P,
                   lc_total_interest = round2 (fst (computeSI P N R)),
                   lc_total_amount_payable = round2 ?A, lc_monthly_emi = ?emi\<rparr>)"
              using cid P N R ok Some by (simp add: post_loans_def Let_def split_beta)
            then show ?thesis
              using create [OF cid _ P N R, of d2] ok insert_loan_Some [OF Some]
              by (simp add: loans_upsertCustomer payments_upsertCustomer)
          qed
        qed
      qed
    qed
  qed
qed

section \<open>One request at a time\<close>

lemma update_paid_off_simps:
  "payments (update_paid_off d loanId) = payments d"
  "loans (update_paid_off d loanId) = map (set_paid_off loanId) (loans d)"
  by (simp_all add: update_paid_off_def)

text \<open>What one request does to the tables of loans and payments.\<close>

lemma handle_cases:
  obtains (same) "loans (fst (handle d r)) = loans d" "payments (fst (handle d r)) = payments d"
  | (created) body uid now l where "r = PostLoan body uid now"
      "loans (fst (handle d r)) = loans d @ [l]" "status l = ACTIVE"
      "payments (fst (handle d r)) = payments d"
  | (paid) loanId body uid now p where "r = PostPayment loanId body uid now"
      "payments (fst (handle d r)) = payments d @ [p]" "pay_loan_id p = loanId"
      "loans (fst (handle d r)) = loans d \<or>
       loans (fst (handle d r)) = map (set_paid_off loanId) (loans d)"
      "rowid p = Suc (max_rowid (payments d))"
proof (cases r)
  case (PostLoan body uid now)
  show ?thesis
  proof (cases rule: post_loans_cases [of d body uid now])
    case (reject c m)
    then show ?thesis using same PostLoan by simp
  next
    case (throw cid)
    then show ?thesis using same PostLoan
      by (simp add: loans_upsertCustomer payments_upsertCustomer)
  next
    case (create cid P N R d2 l)
    then show ?thesis using created [OF PostLoan, of l] PostLoan by simp
  qed
next
  case (PostPayment loanId body uid now)
  show ?thesis
  proof (cases rule: post_payments_cases [of d loanId body uid now])
    case (reject c m)
    then show ?thesis using same PostPayment by simp
  next
    case throw
    then show ?thesis using same PostPayment by simp
  next
    case (accept lrow amt ty d1 t)
    note ins = insert_payment_Some [OF accept(7)]
    show ?thesis
      using paid [OF PostPayment, of "\<lparr>payment_id = uid, pay_loan_id = loanId,
          amount = round2 amt, payment_type = ty, payment_date = now,
          rowid = Suc (max_rowid (payments d))\<rparr>"] PostPayment
      by (simp add: accept(9) ins update_paid_off_simps)
  qed
next
  case (GetLedger x)
  then show ?thesis using same by simp
next
  case (GetOverview x)
  then show ?thesis using same by simp
next
  case GetHealth
  then show ?thesis using same by simp
qed

lemma handle_nth:
  assumes "i < length (loans d)"
  shows "length (loans d) \<le> length (loans (fst (handle d r))) \<and>
    (loans (fst (handle d r)) ! i = loans d ! i \<or>
     loans (fst (handle d r)) ! i = (loans d ! i)\<lparr>status := PAID_OFF\<rparr> \<and>
     (\<exists>loanId body uid now p. r = PostPayment loanId body uid now \<and>
        loan_id (loans d ! i) = loanId \<and> payments (fst (handle d r)) = payments d @ [p] \<and>
        pay_loan_id p = loanId))"
proof (cases rule: handle_cases [of d r])
  case same
  then show ?thesis by simp
next
  case (created body uid now l)
  then show ?thesis using assms by (simp add: nth_append)
next
  case (paid loanId body uid now p)
  from paid(4) show ?thesis
  proof
    assume "loans (fst (handle d r)) = loans d"
    then show ?thesis by simp
  next
    assume l: "loans (fst (handle d r)) = map (set_paid_off loanId) (loans d)"
    show ?thesis
    proof (cases "loan_id (loans d ! i) = loanId")
      case True
      then show ?thesis using assms l paid(1-3) by (simp add: set_paid_off_def)
    next
      case False
      then show ?thesis using assms l by (simp add: set_paid_off_def)
    qed
  qed
qed

section \<open>The rowids\<close>





section \<open>The order of the ledger\<close>








section \<open>The overview\<close>




section \<open>The claims of the specification\<close>

subsection \<open>C1\<close>

text \<open>
  Claim C1. The figures of a created loan are not the rounded values of the claim's
  formulas. For 3 at 15.5 percent over three years the interest is exactly 1.395 and the
  total exactly 4.395: the reply gives the interest as 1.40, the half cent going up, and
  the total as 4.39, the half cent going down, so that principal and interest of the reply
  add up to 4.40 and its total is 4.39. For 46 at 5 percent over one year the total is
  48.30 and a twelfth of it exactly 4.025: the reply gives the installment 4.02, and twelve
  installments pay 48.24.
\<close>

theorem C1_origination_misrounds:
  "snd (post_loans empty_db tie_loan_body ''L8'' 0) =
     LoanCreated
       \<lparr>lc_loan_id = ''L8'', lc_customer_id = ''C1'', lc_principal = dbl 3,
        lc_total_interest = dbl (140 / 100), lc_total_amount_payable = dbl (439 / 100),
        lc_monthly_emi = dbl (12 / 100)\<rparr> \<and>
   snd (post_loans empty_db odd_loan_body ''L9'' 0) =
     LoanCreated
       \<lparr>lc_loan_id = ''L9'', lc_customer_id = ''C1'', lc_principal = dbl 46,
        lc_total_interest = dbl (23 / 10), lc_total_amount_payable = dbl (483 / 10),
        lc_monthly_emi = dbl (402 / 100)\<rparr>"
  by code_simp

subsection \<open>C2\<close>

text \<open>
  Claim C2. A loan of 101.40 for one year at no interest is stored with the total 101.40
  and the installment 8.45, a twelfth of it. With no payment made, its ledger reports the
  balance 101.40 and 13 installments left: the quotient of the two doubles lies just above
  12, and its ceiling is 13, where the balance is twelve installments to the cent.
\<close>

theorem C2_installments_overcounted:
  "get_ledger (run empty_db [plan_loan]) ''L6'' =
     LedgerReply
       \<lparr>lg_loan_id = ''L6'', lg_customer_id = ''C1'', lg_principal = dbl (1014 / 10),
        lg_total_amount = dbl (1014 / 10), lg_monthly_emi = dbl (845 / 100), lg_amount_paid = 0,
        lg_balance_amount = dbl (1014 / 10), lg_emis_left = dbl 13, lg_status = ACTIVE,
        lg_transactions = []\<rparr>"
  by code_simp

subsection \<open>C3\<close>

text \<open>
  Claim C3. A loan of one cent for one year is accepted and stored with the installment
  \<open>round2 (0.01 / 12) = 0\<close> and the total 0.01. Its ledger then divides the positive
  balance by the zero installment with no guard, and reports the installments left as
  \<open>Infinity\<close>: not an error, and not a finite sentinel.
\<close>

theorem C3_zero_installment_divides:
  "get_ledger (run empty_db [cent_loan]) ''L2'' =
     LedgerReply
       \<lparr>lg_loan_id = ''L2'', lg_customer_id = ''C1'', lg_principal = dbl (1 / 100),
        lg_total_amount = dbl (1 / 100), lg_monthly_emi = 0, lg_amount_paid = 0,
        lg_balance_amount = dbl (1 / 100), lg_emis_left = PosInfinity, lg_status = ACTIVE,
        lg_transactions = []\<rparr>"
  by code_simp

subsection \<open>C4\<close>

text \<open>
  Claim C4. A payment request on a loan that is PAID_OFF is never accepted: whatever the
  body, the drawn identifier and the clock, the database stays as it is (no payment row,
  the loan untouched) and the reply is an error. When the request is a payment proper, with
  a positive amount and one of the two types, that error is \<open>409 Loan already paid off\<close>
  (LoanAlreadySettled); a body with a bad amount or type is refused with 400 first, by the
  order of the handler's checks.
\<close>

theorem C4_paid_off_rejects:
  assumes "getLoanOr404 d loanId = Inr lrow" and "status lrow = PAID_OFF"
  shows "fst (post_payments d loanId body uid now) = d \<and>
         (\<exists>c m. snd (post_payments d loanId body uid now) = Error c m) \<and>
         (b_amount body = Some amt \<and> 0 < amt \<and> b_payment_type body = Some ty \<and>
          (ty = ''EMI'' \<or> ty = ''LUMP_SUM'') \<longrightarrow>
            snd (post_payments d loanId body uid now) = Error 409 ''Loan already paid off'')"
proof (intro conjI impI)
  obtain c m where r: "post_payments d loanId body uid now = (d, Error c m)"
  proof (cases rule: post_payments_cases [of d loanId body uid now])
    case (reject c m)
    then show ?thesis by (rule that)
  next
    case throw
    have "snd (post_payments d loanId body uid now) \<noteq> Unhandled"
      using assms by (simp add: post_payments_def split: option.splits)
    with throw show ?thesis by simp
  next
    case (accept l a ty' d1 t)
    with assms show ?thesis by simp
  qed
  then show "fst (post_payments d loanId body uid now) = d"
    and "\<exists>c m. snd (post_payments d loanId body uid now) = Error c m"
    by simp_all
  show "snd (post_payments d loanId body uid now) = Error 409 ''Loan already paid off''"
    if h: "b_amount body = Some amt \<and> 0 < amt \<and> b_payment_type body = Some ty \<and>
          (ty = ''EMI'' \<or> ty = ''LUMP_SUM'')"
  proof -
    from h have "0 < amt" by simp
    note pos = positive_double [OF this]
    from h have "\<not> (ty = [] \<or> ty \<notin> set [''EMI'', ''LUMP_SUM''])" by auto
    then show ?thesis using h assms pos by (simp add: post_payments_def)
  qed
qed

text \<open>After the lump sum of the worked run the loan is PAID_OFF; a further installment is refused.\<close>

theorem C4_paid_off_rejects_witness:
  "fst (post_payments (run empty_db [ex_loan, ex_emi, ex_lump]) ''L1'' ex_emi_body ''P3'' 2) =
     run empty_db [ex_loan, ex_emi, ex_lump] \<and>
   snd (post_payments (run empty_db [ex_loan, ex_emi, ex_lump]) ''L1'' ex_emi_body ''P3'' 2) =
     Error 409 ''Loan already paid off''"
proof -
  have h1: "getLoanOr404 (run empty_db [ex_loan, ex_emi, ex_lump]) ''L1'' = Inr (ex_row PAID_OFF)"
    by code_simp
  have h2: "status (ex_row PAID_OFF) = PAID_OFF"
    by (simp add: ex_row_def)
  have h3: "0 < dbl (916667 / 100)"
    by code_simp
  have h4: "b_amount ex_emi_body = Some (dbl (916667 / 100)) \<and> 0 < dbl (916667 / 100) \<and>
      b_payment_type ex_emi_body = Some ''EMI'' \<and> (''EMI'' = ''EMI'' \<or> ''EMI'' = ''LUMP_SUM'')"
    using h3 by (simp add: ex_emi_body_def)
  from C4_paid_off_rejects [OF h1 h2, of ex_emi_body "''P3''" 2 "dbl (916667 / 100)" "''EMI''"] h4
  show ?thesis by blast
qed

subsection \<open>C5\<close>

text \<open>
  Claim C5. A loan of a tenth of a cent passes the check \<open>loan_amount > 0\<close> and is stored
  with the total \<open>round2 0.001 = 0\<close>. With no payment recorded its cumulative payments, 0,
  reach its total, 0: the ledger reports the balance 0 and no installment left, and the
  status ACTIVE. The status is written by the payment handler alone, so the loan is not
  PAID_OFF until some payment is recorded for it.
\<close>

theorem C5_zero_total_stays_active:
  "get_ledger (run empty_db [tiny_loan]) ''L3'' =
     LedgerReply
       \<lparr>lg_loan_id = ''L3'', lg_customer_id = ''C1'', lg_principal = 0,
        lg_total_amount = 0, lg_monthly_emi = 0, lg_amount_paid = 0,
        lg_balance_amount = 0, lg_emis_left = 0, lg_status = ACTIVE,
        lg_transactions = []\<rparr>"
  by code_simp

subsection \<open>C6\<close>

text \<open>
  Claim C6. On the loan of the worked run, a payment of a tenth of a cent passes the check
  \<open>amount > 0\<close> and is then stored as the rounded amount, which is 0: the handler
  answers with a receipt, and table \<open>payments\<close> holds a row with amount 0.
\<close>

theorem C6_zero_amount_stored:
  "handle (run empty_db [ex_loan]) (PostPayment ''L1'' subcent_body ''P1'' 1) =
     (\<lparr>customers = [\<lparr>cust_id = ''C1'', cust_name = None, cust_created_at = 0\<rparr>],
       loans = [ex_row ACTIVE],
       payments = [\<lparr>payment_id = ''P1'', pay_loan_id = ''L1'', amount = 0,
                    payment_type = ''EMI'', payment_date = 1, rowid = 1\<rparr>]\<rparr>,
      PaymentRecorded
        \<lparr>pr_payment_id = ''P1'', pr_loan_id = ''L1'',
         pr_message = ''Payment recorded successfully'',
         pr_remaining_balance = dbl 110000, pr_emis_left = dbl 12\<rparr>)"
  by code_simp

subsection \<open>C7\<close>



subsection \<open>C8\<close>




subsection \<open>C9\<close>

text \<open>
  Claim C9. The amount paid depends on the order in which the payments were recorded. On a
  loan of \<open>10\<^sup>1\<^sup>6\<close> the payments 0.07, 0.01, 2.92 and 9007199254740992, recorded in this
  order, give the amount paid 9007199254740996, the balance 992800745259004; with the
  second and the third payment exchanged, the same four payments give the amount paid
  9007199254740994 and another balance. Their sum is 9007199254740995.
\<close>

theorem C9_amount_paid_depends_on_order:
  "totalsForLoan (run empty_db [huge_loan, pay_a, pay_b, pay_c, pay_d]) ''L7'' =
     Inr \<lparr>t_loan = huge_row, t_paid = dbl 9007199254740996,
          t_balance = dbl 992800745259004, t_emisLeft = dbl 2\<rparr> \<and>
   totalsForLoan (run empty_db [huge_loan, pay_a, pay_c, pay_b, pay_d]) ''L7'' =
     Inr \<lparr>t_loan = huge_row, t_paid = dbl 9007199254740994,
          t_balance = dbl (9928007452590061 / 10), t_emisLeft = dbl 2\<rparr>"
  by code_simp

subsection \<open>C10\<close>

text \<open>
  Claim C10. Let a loan be the \<open>i\<close>-th row of table \<open>loans\<close>. After any one request
  it still is, and it is the same row but for its status: identifier, customer, principal,
  rate, term, total, installment and creation time are as before. When its status did
  change, the request was a payment on this very loan, and a payment row for it was
  appended to table \<open>payments\<close>. And after any list of requests the row is still the same
  but for its status.
\<close>

theorem C10_only_status_changes:
  assumes "i < length (loans d)"
  shows "length (loans d) \<le> length (loans (fst (handle d r))) \<and>
    (loans (fst (handle d r)) ! i)\<lparr>status := status (loans d ! i)\<rparr> = loans d ! i \<and>
    (status (loans (fst (handle d r)) ! i) \<noteq> status (loans d ! i) \<longrightarrow>
       (\<exists>loanId body uid now p. r = PostPayment loanId body uid now \<and>
          loan_id (loans d ! i) = loanId \<and> payments (fst (handle d r)) = payments d @ [p] \<and>
          pay_loan_id p = loanId)) \<and>
    length (loans d) \<le> length (loans (run d rs)) \<and>
    (loans (run d rs) ! i)\<lparr>status := status (loans d ! i)\<rparr> = loans d ! i"
proof -
  have one: "length (loans d) \<le> length (loans (fst (handle d r))) \<and>
      (loans (fst (handle d r)) ! i)\<lparr>status := status (loans d ! i)\<rparr> = loans d ! i"
    if "i < length (loans d)" for d r
    using handle_nth [OF that, of r] by auto
  have many: "length (loans d) \<le> length (loans (run d rs)) \<and>
      (loans (run d rs) ! i)\<lparr>status := status (loans d ! i)\<rparr> = loans d ! i"
    if "i < length (loans d)" for d
    using that
  proof (induction rs arbitrary: d)
    case Nil
    then show ?case by simp
  next
    case (Cons r rs)
    let ?d1 = "fst (handle d r)"
    from one [OF Cons.prems, of r] have s: "length (loans d) \<le> length (loans ?d1)"
      and e: "(loans ?d1 ! i)\<lparr>status := status (loans d ! i)\<rparr> = loans d ! i"
      by simp_all
    from s Cons.prems have "i < length (loans ?d1)" by simp
    from Cons.IH [OF this] have s': "length (loans ?d1) \<le> length (loans (run ?d1 rs))"
      and e': "(loans (run ?d1 rs) ! i)\<lparr>status := status (loans ?d1 ! i)\<rparr> = loans ?d1 ! i"
      by simp_all
    have "(loans (run ?d1 rs) ! i)\<lparr>status := status (loans d ! i)\<rparr> =
        (loans (run ?d1 rs) ! i)\<lparr>status := status (loans ?d1 ! i)\<rparr>\<lparr>status := status (loans d ! i)\<rparr>"
      by simp
    also have "\<dots> = loans d ! i" by (simp only: e' e)
    finally show ?case using s s' by simp
  qed
  show ?thesis
    using one [OF assms, of r] many [OF assms] handle_nth [OF assms, of r] by auto
qed

text \<open>
  In the worked run, the lump sum changes the status of the loan and nothing else of it;
  so do the lump sum and a second loan after it.
\<close>

theorem C10_only_status_changes_witness:
  "length (loans (run empty_db [ex_loan, ex_emi])) \<le>
     length (loans (fst (handle (run empty_db [ex_loan, ex_emi]) ex_lump))) \<and>
   (loans (fst (handle (run empty_db [ex_loan, ex_emi]) ex_lump)) ! 0)
      \<lparr>status := status (loans (run empty_db [ex_loan, ex_emi]) ! 0)\<rparr> =
     loans (run empty_db [ex_loan, ex_emi]) ! 0 \<and>
   (\<exists>loanId body uid now p. ex_lump = PostPayment loanId body uid now \<and>
      loan_id (loans (run empty_db [ex_loan, ex_emi]) ! 0) = loanId \<and>
      payments (fst (handle (run empty_db [ex_loan, ex_emi]) ex_lump)) =
        payments (run empty_db [ex_loan, ex_emi]) @ [p] \<and>
      pay_loan_id p = loanId) \<and>
   length (loans (run empty_db [ex_loan, ex_emi])) \<le>
     length (loans (run (run empty_db [ex_loan, ex_emi]) [ex_lump, ex_loan2])) \<and>
   (loans (run (run empty_db [ex_loan, ex_emi]) [ex_lump, ex_loan2]) ! 0)
      \<lparr>status := status (loans (run empty_db [ex_loan, ex_emi]) ! 0)\<rparr> =
     loans (run empty_db [ex_loan, ex_emi]) ! 0"
proof -
  let ?d = "run empty_db [ex_loan, ex_emi]"
  have h1: "0 < length (loans ?d)"
    by code_simp
  have h2: "status (loans (fst (handle ?d ex_lump)) ! 0) \<noteq> status (loans ?d ! 0)"
    by code_simp
  from C10_only_status_changes [OF h1, of ex_lump "[ex_lump, ex_loan2]"] h2
  show ?thesis by blast
qed

end
